theory Spec2Isabelle
  imports Main
begin

section \<open>The connection router of Secure-Chat (WebSocketHandler)\<close>

text \<open>
  The router is the class \<^verbatim>\<open>WebSocketHandler\<close>: two JavaScript \<^verbatim>\<open>Map\<close>s and one
  handler per client event. A handler is a function from the router's state to the new
  state and the list of events it emits, each with the socket id it is sent to. The
  handlers are registered by \<^verbatim>\<open>initialize\<close>, which sets \<^verbatim>\<open>io\<close> first, so \<^verbatim>\<open>io\<close> is
  there whenever a handler runs. Payloads are objects whose fields are strings (a
  timestamp is a number, \<^verbatim>\<open>isTyping\<close> a boolean), as the handlers document them.
\<close>

subsection \<open>JavaScript values\<close>

text \<open>
  A field of an event payload is a string that may be missing (\<^verbatim>\<open>undefined\<close>). The
  source tests such fields with \<^verbatim>\<open>!x\<close>, \<^verbatim>\<open>if (x)\<close> and \<^verbatim>\<open>x || y\<close>: a missing field and
  the empty string are falsy, every other string is truthy. The handlers below write the
  test out as a case distinction, since they go on to use the string.
\<close>

definition truthy :: "string option \<Rightarrow> bool" where
  "truthy v = (case v of None \<Rightarrow> False | Some s \<Rightarrow> s \<noteq> [])"

subsection \<open>The JavaScript Map\<close>

text \<open>
  A \<^verbatim>\<open>Map\<close> keeps its entries in insertion order, one entry per key: \<^verbatim>\<open>set\<close> on a key
  that is present replaces the value where the entry stands, \<^verbatim>\<open>set\<close> on a new key appends
  an entry, \<^verbatim>\<open>delete\<close> removes the entry, \<^verbatim>\<open>keys()\<close> lists the keys in order. It is modelled
  as an association list.
\<close>

type_synonym ('k, 'v) js_map = "('k \<times> 'v) list"

fun Map_get :: "('k, 'v) js_map \<Rightarrow> 'k \<Rightarrow> 'v option" where
  "Map_get [] k = None"
| "Map_get ((k', v) # m) k = (if k' = k then Some v else Map_get m k)"

fun Map_set :: "'k \<Rightarrow> 'v \<Rightarrow> ('k, 'v) js_map \<Rightarrow> ('k, 'v) js_map" where
  "Map_set k v [] = [(k, v)]"
| "Map_set k v ((k', v') # m) = (if k' = k then (k, v) # m else (k', v') # Map_set k v m)"

fun Map_delete :: "'k \<Rightarrow> ('k, 'v) js_map \<Rightarrow> ('k, 'v) js_map" where
  "Map_delete k [] = []"
| "Map_delete k ((k', v') # m) = (if k' = k then Map_delete k m else (k', v') # Map_delete k m)"

definition Map_has :: "('k, 'v) js_map \<Rightarrow> 'k \<Rightarrow> bool" where
  "Map_has m k = (Map_get m k \<noteq> None)"

definition Map_size :: "('k, 'v) js_map \<Rightarrow> nat" where
  "Map_size m = length m"

definition Map_keys :: "('k, 'v) js_map \<Rightarrow> 'k list" where
  "Map_keys m = map fst m"

subsection \<open>The state of the router\<close>

text \<open>
  A connection handle is the transport's \<^verbatim>\<open>socket.id\<close>, a string. The constructor creates
  \<^verbatim>\<open>connectedUsers\<close> (username to socket id) and \<^verbatim>\<open>userSockets\<close> (socket id to user data),
  both empty.
\<close>

type_synonym handle = string

record user_data =
  username :: string
  connectedAt :: int

record router =
  connectedUsers :: "(string, handle) js_map"
  userSockets :: "(handle, user_data) js_map"

definition constructor :: router where
  "constructor = \<lparr>connectedUsers = [], userSockets = []\<rparr>"

subsection \<open>Events\<close>

text \<open>The payloads a client sends with its events; \<^verbatim>\<open>None\<close> is a field that is missing.\<close>

record auth_data =
  ad_username :: "string option"

record message_data =
  md_to :: "string option"
  md_encryptedContent :: "string option"
  md_timestamp :: "int option"
  md_id :: "string option"

record confirmation_data =
  cd_messageId :: "string option"
  cd_from :: "string option"

record typing_data =
  td_to :: "string option"
  td_isTyping :: "bool option"

text \<open>The payloads the router emits.\<close>

record message_payload =
  msg_id :: string
  msg_from :: string
  msg_to :: string
  msg_content :: string
  msg_timestamp :: int
  msg_deliveredAt :: int

record delivery_receipt =
  rc_messageId :: string
  rc_status :: string
  rc_error :: "string option"
  rc_timestamp :: int

record read_receipt =
  rd_messageId :: "string option"
  rd_readBy :: string
  rd_timestamp :: int

record typing_payload =
  ty_from :: string
  ty_isTyping :: "bool option"

text \<open>
  The events of the router, named as on the wire: \<^verbatim>\<open>authenticated\<close> (success, username),
  \<^verbatim>\<open>authError\<close>, \<^verbatim>\<open>error\<close>, \<^verbatim>\<open>message\<close>, \<^verbatim>\<open>messageDelivered\<close>, \<^verbatim>\<open>messageRead\<close> and
  \<^verbatim>\<open>userTyping\<close>. An emission is an event with the socket id it goes to:
  \<^verbatim>\<open>socket.emit\<close> sends to the handler's own socket, \<^verbatim>\<open>io.to(id).emit\<close> to the socket
  whose id is \<^verbatim>\<open>id\<close>.
\<close>

datatype event =
    Authenticated bool string
  | AuthError string
  | Error string
  | Message message_payload
  | MessageDelivered delivery_receipt
  | MessageRead read_receipt
  | UserTyping typing_payload

type_synonym emission = "handle \<times> event"

text \<open>
  What a call of \<^verbatim>\<open>handleMessageSend\<close> reads from the clock and the random generator:
  the text that follows \<^verbatim>\<open>msg_\<close> in a generated id, and the three readings of
  \<^verbatim>\<open>Date.now()\<close> (for a missing timestamp, for \<^verbatim>\<open>deliveredAt\<close>, for the receipt).
\<close>

record send_env =
  se_token :: string
  se_now_timestamp :: int
  se_now_deliveredAt :: int
  se_now_receipt :: int

subsection \<open>The handlers\<close>

text \<open>
  \<^verbatim>\<open>handleAuthentication(socket, authData)\<close>; \<open>now\<close> is what \<^verbatim>\<open>new Date()\<close> returns.
  Destructuring a payload that is missing (\<^verbatim>\<open>undefined\<close> in place of the object) throws,
  and the \<^verbatim>\<open>catch\<close> emits \<^verbatim>\<open>authError\<close>.
\<close>

definition handleAuthentication ::
  "int \<Rightarrow> router \<Rightarrow> handle \<Rightarrow> auth_data option \<Rightarrow> router \<times> emission list" where
  "handleAuthentication now r sid authData =
     (case authData of
        None \<Rightarrow> (r, [(sid, AuthError ''Authentication failed'')])
      | Some ad \<Rightarrow>
          (case ad_username ad of
             None \<Rightarrow> (r, [(sid, AuthError ''Username is required'')])
           | Some u \<Rightarrow>
               if u = [] then (r, [(sid, AuthError ''Username is required'')])
               else
                 (r\<lparr>connectedUsers := Map_set u sid (connectedUsers r),
                    userSockets := Map_set sid \<lparr>username = u, connectedAt = now\<rparr> (userSockets r)\<rparr>,
                  [(sid, Authenticated True u)])))"

text \<open>
  The message id is the client's \<^verbatim>\<open>id\<close> when that is truthy, and otherwise the text
  \<^verbatim>\<open>msg_\<close> followed by the clock reading and a random suffix. The timestamp is the
  client's when truthy, and otherwise \<^verbatim>\<open>Date.now()\<close>.
\<close>

definition resolve_id :: "send_env \<Rightarrow> string option \<Rightarrow> string" where
  "resolve_id env i =
     (case i of
        None \<Rightarrow> ''msg_'' @ se_token env
      | Some m \<Rightarrow> if m = [] then ''msg_'' @ se_token env else m)"

definition resolve_timestamp :: "send_env \<Rightarrow> int option \<Rightarrow> int" where
  "resolve_timestamp env t =
     (case t of
        None \<Rightarrow> se_now_timestamp env
      | Some n \<Rightarrow> if n = 0 then se_now_timestamp env else n)"

text \<open>
  \<^verbatim>\<open>handleMessageSend(socket, messageData)\<close>. The sender is looked up before the
  payload is destructured, so a missing payload reaches the \<^verbatim>\<open>catch\<close> only for a sender
  that is identified.
\<close>

definition handleMessageSend ::
  "send_env \<Rightarrow> router \<Rightarrow> handle \<Rightarrow> message_data option \<Rightarrow> router \<times> emission list" where
  "handleMessageSend env r sid messageData =
     (case Map_get (userSockets r) sid of
        None \<Rightarrow> (r, [(sid, Error ''Not authenticated'')])
      | Some senderData \<Rightarrow>
          (case messageData of
             None \<Rightarrow> (r, [(sid, Error ''Message send failed'')])
           | Some md \<Rightarrow>
               (case (md_to md, md_encryptedContent md) of
                  (Some to, Some encryptedContent) \<Rightarrow>
                    if to = [] \<or> encryptedContent = [] then
                      (r, [(sid, Error ''Recipient and message content are required'')])
                    else
                      let messageId = resolve_id env (md_id md);
                          messagePayload =
                            \<lparr>msg_id = messageId,
                             msg_from = username senderData,
                             msg_to = to,
                             msg_content = encryptedContent,
                             msg_timestamp = resolve_timestamp env (md_timestamp md),
                             msg_deliveredAt = se_now_deliveredAt env\<rparr>
                      in
                        (case Map_get (connectedUsers r) to of
                           Some recipientSocketId \<Rightarrow>
                             if recipientSocketId \<noteq> [] then
                               (r, [(recipientSocketId, Message messagePayload),
                                    (sid, MessageDelivered
                                       \<lparr>rc_messageId = messageId,
                                        rc_status = ''delivered'',
                                        rc_error = None,
                                        rc_timestamp = se_now_receipt env\<rparr>)])
                             else
                               (r, [(sid, MessageDelivered
                                       \<lparr>rc_messageId = messageId,
                                        rc_status = ''failed'',
                                        rc_error = Some ''Recipient is offline'',
                                        rc_timestamp = se_now_receipt env\<rparr>)])
                         | None \<Rightarrow>
                             (r, [(sid, MessageDelivered
                                     \<lparr>rc_messageId = messageId,
                                      rc_status = ''failed'',
                                      rc_error = Some ''Recipient is offline'',
                                      rc_timestamp = se_now_receipt env\<rparr>)]))
                | _ \<Rightarrow> (r, [(sid, Error ''Recipient and message content are required'')]))))"

text \<open>
  \<^verbatim>\<open>handleMessageReceived(socket, confirmationData)\<close>. A missing payload throws after the
  receiver was looked up; the \<^verbatim>\<open>catch\<close> only logs.
\<close>

definition handleMessageReceived ::
  "int \<Rightarrow> router \<Rightarrow> handle \<Rightarrow> confirmation_data option \<Rightarrow> router \<times> emission list" where
  "handleMessageReceived now r sid confirmationData =
     (case Map_get (userSockets r) sid of
        None \<Rightarrow> (r, [])
      | Some receiverData \<Rightarrow>
          (case confirmationData of
             None \<Rightarrow> (r, [])
           | Some cd \<Rightarrow>
               (case cd_from cd of
                  None \<Rightarrow> (r, [])
                | Some sender \<Rightarrow>
                    (case Map_get (connectedUsers r) sender of
                       None \<Rightarrow> (r, [])
                     | Some senderSocketId \<Rightarrow>
                         if senderSocketId \<noteq> [] then
                           (r, [(senderSocketId, MessageRead
                                   \<lparr>rd_messageId = cd_messageId cd,
                                    rd_readBy = username receiverData,
                                    rd_timestamp = now\<rparr>)])
                         else (r, [])))))"

text \<open>\<^verbatim>\<open>handleTyping(socket, typingData)\<close>; its \<^verbatim>\<open>catch\<close> only logs.\<close>

definition handleTyping ::
  "router \<Rightarrow> handle \<Rightarrow> typing_data option \<Rightarrow> router \<times> emission list" where
  "handleTyping r sid typingData =
     (case Map_get (userSockets r) sid of
        None \<Rightarrow> (r, [])
      | Some senderData \<Rightarrow>
          (case typingData of
             None \<Rightarrow> (r, [])
           | Some td \<Rightarrow>
               (case td_to td of
                  None \<Rightarrow> (r, [])
                | Some to \<Rightarrow>
                    (case Map_get (connectedUsers r) to of
                       None \<Rightarrow> (r, [])
                     | Some recipientSocketId \<Rightarrow>
                         if recipientSocketId \<noteq> [] then
                           (r, [(recipientSocketId, UserTyping
                                   \<lparr>ty_from = username senderData,
                                    ty_isTyping = td_isTyping td\<rparr>)])
                         else (r, [])))))"

text \<open>\<^verbatim>\<open>handleDisconnection(socket)\<close>.\<close>

definition handleDisconnection :: "router \<Rightarrow> handle \<Rightarrow> router \<times> emission list" where
  "handleDisconnection r sid =
     (case Map_get (userSockets r) sid of
        Some userData \<Rightarrow>
          (r\<lparr>connectedUsers := Map_delete (username userData) (connectedUsers r),
             userSockets := Map_delete sid (userSockets r)\<rparr>, [])
      | None \<Rightarrow> (r, []))"

text \<open>
  The three queries. Each is a method of the router: it returns the state it was called
  on together with its result.
\<close>

definition getConnectedUsersCount :: "router \<Rightarrow> router \<times> nat" where
  "getConnectedUsersCount r = (r, Map_size (connectedUsers r))"

definition getConnectedUsernames :: "router \<Rightarrow> router \<times> string list" where
  "getConnectedUsernames r = (r, Map_keys (connectedUsers r))"

definition isUserOnline :: "router \<Rightarrow> string \<Rightarrow> router \<times> bool" where
  "isUserOnline r u = (r, Map_has (connectedUsers r) u)"

subsection \<open>The HTTP status route\<close>

text \<open>
  \<^verbatim>\<open>GET /websocket/status\<close> reads the handler from the application's locals; where there
  is none it answers 503. The route returns the handler as the two queries left it.
\<close>

record status_body =
  sb_success :: bool
  sb_status :: string
  sb_connectedUsers :: nat
  sb_connectedUsernames :: "string list"

datatype http_body = StatusBody status_body | ErrorBody bool string

definition get_websocket_status :: "router option \<Rightarrow> router option \<times> nat \<times> http_body" where
  "get_websocket_status wsHandler =
     (case wsHandler of
        None \<Rightarrow> (None, 503, ErrorBody False ''WebSocket service not available'')
      | Some r \<Rightarrow>
          let (r1, n) = getConnectedUsersCount r;
              (r2, names) = getConnectedUsernames r1
          in (Some r2, 200,
              StatusBody \<lparr>sb_success = True, sb_status = ''active'',
                          sb_connectedUsers = n, sb_connectedUsernames = names\<rparr>))"

subsection \<open>Dispatch and runs\<close>

text \<open>
  \<^verbatim>\<open>setupEventHandlers\<close> registers one handler per client event on every socket. A
  request is one such event as it arrives: the socket's id, the payload, and what the
  handler will read from the clock. All handlers run on one thread, one after the other.
\<close>

datatype request =
    Authenticate handle "auth_data option" int
  | SendMessage handle "message_data option" send_env
  | MessageReceived handle "confirmation_data option" int
  | Typing handle "typing_data option"
  | Disconnect handle

fun on_event :: "router \<Rightarrow> request \<Rightarrow> router \<times> emission list" where
  "on_event r (Authenticate sid authData now) = handleAuthentication now r sid authData"
| "on_event r (SendMessage sid messageData env) = handleMessageSend env r sid messageData"
| "on_event r (MessageReceived sid confirmationData now) =
     handleMessageReceived now r sid confirmationData"
| "on_event r (Typing sid typingData) = handleTyping r sid typingData"
| "on_event r (Disconnect sid) = handleDisconnection r sid"

fun run :: "router \<Rightarrow> request list \<Rightarrow> router \<times> emission list" where
  "run r [] = (r, [])"
| "run r (q # qs) =
     (let (r1, out1) = on_event r q;
          (r2, out2) = run r1 qs
      in (r2, out1 @ out2))"

text \<open>An identify call: the socket, the claimed identity and the time of the call.\<close>

definition identify :: "handle \<Rightarrow> string \<Rightarrow> int \<Rightarrow> request" where
  "identify sid u now = Authenticate sid (Some \<lparr>ad_username = Some u\<rparr>) now"

subsection \<open>Observations\<close>

text \<open>The events emitted on one connection, in order.\<close>

definition events_on :: "handle \<Rightarrow> emission list \<Rightarrow> event list" where
  "events_on h out = map snd (filter (\<lambda>e. fst e = h) out)"

text \<open>
  The handles bound to an identity in each direction of the presence table: the value
  entries of \<^verbatim>\<open>connectedUsers\<close> under the identity, and the keys of \<^verbatim>\<open>userSockets\<close>
  whose user data carries it.
\<close>

definition handles_bound_to :: "router \<Rightarrow> string \<Rightarrow> handle list" where
  "handles_bound_to r a = map snd (filter (\<lambda>e. fst e = a) (connectedUsers r))"

definition handles_claiming :: "router \<Rightarrow> string \<Rightarrow> handle list" where
  "handles_claiming r a = map fst (filter (\<lambda>e. username (snd e) = a) (userSockets r))"

text \<open>The identities a handle carries in \<^verbatim>\<open>userSockets\<close>.\<close>

definition identities_carried_by :: "router \<Rightarrow> handle \<Rightarrow> string list" where
  "identities_carried_by r h =
     map (\<lambda>e. username (snd e)) (filter (\<lambda>e. fst e = h) (userSockets r))"

text \<open>The identity a handle is identified as, if any.\<close>

definition identity_of :: "router \<Rightarrow> handle \<Rightarrow> string option" where
  "identity_of r h = map_option username (Map_get (userSockets r) h)"

text \<open>
  A sequence of identify calls, each with its socket, its payload and its time, as the
  requests it makes.
\<close>

definition authenticate_call :: "handle \<times> auth_data option \<times> int \<Rightarrow> request" where
  "authenticate_call c = (case c of (sid, authData, now) \<Rightarrow> Authenticate sid authData now)"

text \<open>The socket a request arrives on.\<close>

fun socket_of :: "request \<Rightarrow> handle" where
  "socket_of (Authenticate sid authData now) = sid"
| "socket_of (SendMessage sid messageData env) = sid"
| "socket_of (MessageReceived sid confirmationData now) = sid"
| "socket_of (Typing sid typingData) = sid"
| "socket_of (Disconnect sid) = sid"

text \<open>
  The two requests that write \<^verbatim>\<open>userSockets\<close>: an \<^verbatim>\<open>authenticate\<close> whose username is
  truthy, and the close of the connection.
\<close>

fun binds_identity :: "request \<Rightarrow> bool" where
  "binds_identity (Authenticate sid (Some ad) now) = truthy (ad_username ad)"
| "binds_identity q = False"

fun closes :: "request \<Rightarrow> bool" where
  "closes (Disconnect sid) = True"
| "closes q = False"

section \<open>Facts about the Map model\<close>

lemma Map_get_set: "Map_get (Map_set k v m) k' = (if k' = k then Some v else Map_get m k')"
  by (induction m) auto

lemma Map_get_delete: "Map_get (Map_delete k m) k' = (if k' = k then None else Map_get m k')"
  by (induction m) auto

lemma keys_Map_set: "set (map fst (Map_set k v m)) = insert k (set (map fst m))"
  by (induction m) force+

lemma keys_Map_delete: "set (map fst (Map_delete k m)) = set (map fst m) - {k}"
  by (induction m) force+

lemma distinct_Map_set: "distinct (map fst m) \<Longrightarrow> distinct (map fst (Map_set k v m))"
proof (induction m)
  case Nil
  then show ?case by simp
next
  case (Cons e m)
  have "fst e \<noteq> k \<Longrightarrow> fst e \<notin> set (map fst (Map_set k v m))"
    using Cons.prems unfolding keys_Map_set by auto
  with Cons show ?case by (cases e) auto
qed

lemma distinct_Map_delete: "distinct (map fst m) \<Longrightarrow> distinct (map fst (Map_delete k m))"
proof (induction m)
  case Nil
  then show ?case by simp
next
  case (Cons e m)
  have "fst e \<notin> set (map fst (Map_delete k m))"
    using Cons.prems unfolding keys_Map_delete by auto
  with Cons show ?case by (cases e) auto
qed

lemma Map_get_None_iff: "Map_get m k = None \<longleftrightarrow> k \<notin> set (map fst m)"
  by (induction m) force+

lemma Map_has_iff: "Map_has m k \<longleftrightarrow> k \<in> set (Map_keys m)"
  by (simp add: Map_has_def Map_keys_def Map_get_None_iff)

section \<open>Invariants of the router\<close>

lemmas handler_defs = handleAuthentication_def handleMessageSend_def handleMessageReceived_def
  handleTyping_def handleDisconnection_def

text \<open>The definitions a concrete run is evaluated with.\<close>

lemmas eval_defs = handler_defs constructor_def identify_def events_on_def resolve_id_def
  resolve_timestamp_def truthy_def identity_of_def isUserOnline_def getConnectedUsersCount_def
  getConnectedUsernames_def Map_has_def Map_size_def Map_keys_def handles_bound_to_def
  handles_claiming_def identities_carried_by_def authenticate_call_def get_websocket_status_def Let_def

text \<open>Every handler keeps both tables proper maps: one entry per key.\<close>

lemma on_event_distinct:
  assumes "distinct (map fst (connectedUsers r))" "distinct (map fst (userSockets r))"
  shows "distinct (map fst (connectedUsers (fst (on_event r q)))) \<and>
         distinct (map fst (userSockets (fst (on_event r q))))"
  using assms
  by (cases q)
     (auto simp: handler_defs Let_def distinct_Map_set distinct_Map_delete
           split: option.splits prod.splits)

lemma run_distinct:
  "distinct (map fst (connectedUsers r)) \<Longrightarrow> distinct (map fst (userSockets r)) \<Longrightarrow>
   distinct (map fst (connectedUsers (fst (run r qs)))) \<and>
   distinct (map fst (userSockets (fst (run r qs))))"
proof (induction qs arbitrary: r)
  case Nil
  then show ?case by simp
next
  case (Cons q qs)
  from on_event_distinct [OF Cons.prems]
  have "distinct (map fst (connectedUsers (fst (on_event r q))))"
    and "distinct (map fst (userSockets (fst (on_event r q))))" by simp_all
  from Cons.IH [OF this] show ?case
    by (simp add: split_beta)
qed

lemma reachable_distinct:
  "distinct (map fst (connectedUsers (fst (run constructor qs))))"
  using run_distinct [of constructor qs] by (simp add: constructor_def)

lemma reachable_distinct_sockets:
  "distinct (map fst (userSockets (fst (run constructor qs))))"
  using run_distinct [of constructor qs] by (simp add: constructor_def)

section \<open>Runs of identify calls\<close>

lemma filter_key_distinct:
  "distinct (map fst m) \<Longrightarrow> length (filter (\<lambda>e. fst e = a) m) \<le> 1"
proof (induction m)
  case Nil
  then show ?case by simp
next
  case (Cons e m)
  show ?case
  proof (cases "fst e = a")
    case True
    with Cons.prems have "a \<notin> set (map fst m)" by auto
    then have "filter (\<lambda>e. fst e = a) m = []"
      by (auto simp: filter_empty_conv)
    with True show ?thesis by simp
  next
    case False
    with Cons show ?thesis by simp
  qed
qed

lemma filter_key_Map_get:
  "distinct (map fst m) \<Longrightarrow> Map_get m a = Some v \<Longrightarrow>
   map snd (filter (\<lambda>e. fst e = a) m) = [v]"
proof (induction m)
  case Nil
  then show ?case by simp
next
  case (Cons e m)
  show ?case
  proof (cases "fst e = a")
    case True
    with Cons.prems have "a \<notin> set (map fst m)" by auto
    then have "filter (\<lambda>e. fst e = a) m = []"
      by (auto simp: filter_empty_conv)
    with True Cons.prems show ?thesis by (cases e) simp
  next
    case False
    with Cons show ?thesis by (cases e) simp
  qed
qed

lemma run_two: "run r [q1, q2] = (fst (on_event (fst (on_event r q1)) q2),
    snd (on_event r q1) @ snd (on_event (fst (on_event r q1)) q2))"
  by (simp add: split_beta)

lemma identify_state:
  "u \<noteq> [] \<Longrightarrow> fst (on_event r (identify s u t)) =
     r\<lparr>connectedUsers := Map_set u s (connectedUsers r),
       userSockets := Map_set s \<lparr>username = u, connectedAt = t\<rparr> (userSockets r)\<rparr>"
  by (simp add: identify_def handleAuthentication_def)

lemma identify_out:
  "u \<noteq> [] \<Longrightarrow> snd (on_event r (identify s u t)) = [(s, Authenticated True u)]"
  by (simp add: identify_def handleAuthentication_def)

lemma run_identify2:
  "a \<noteq> [] \<Longrightarrow> b \<noteq> [] \<Longrightarrow>
   fst (run r [identify h1 a t1, identify h2 b t2]) =
     r\<lparr>connectedUsers := Map_set b h2 (Map_set a h1 (connectedUsers r)),
       userSockets := Map_set h2 \<lparr>username = b, connectedAt = t2\<rparr>
                        (Map_set h1 \<lparr>username = a, connectedAt = t1\<rparr> (userSockets r))\<rparr>"
  unfolding run_two by (simp add: identify_state)

lemma run_snoc_state: "fst (run r (qs @ [q])) = fst (on_event (fst (run r qs)) q)"
  by (induction qs arbitrary: r) (simp_all add: split_beta)

section \<open>The claims\<close>

subsection \<open>C1: the close of a connection\<close>

text \<open>
  C1 as the specification states it asks for a guard: the close of \<open>H1\<close> removes the
  binding of \<open>A\<close> only while \<open>A\<close> is still bound to \<open>H1\<close>. \<^verbatim>\<open>handleDisconnection\<close> has no
  such test. After \<open>alice\<close> identifies on \<open>H1\<close> and then on \<open>H2\<close>, she is bound to \<open>H2\<close> and
  online; once \<open>H1\<close> closes she is reported offline.
\<close>

theorem stale_disconnect_evicts_live_binding:
  "Map_get (connectedUsers (fst (run constructor
      [identify ''H1'' ''alice'' 1, identify ''H2'' ''alice'' 2]))) ''alice'' = Some ''H2'' \<and>
   snd (isUserOnline (fst (run constructor
      [identify ''H1'' ''alice'' 1, identify ''H2'' ''alice'' 2])) ''alice'') \<and>
   \<not> snd (isUserOnline (fst (run constructor
      [identify ''H1'' ''alice'' 1, identify ''H2'' ''alice'' 2, Disconnect ''H1''])) ''alice'')"
  by code_simp

text \<open>
  C1, as the code has it. When the close of a connection handle \<open>h\<close> that is identified
  (as the identity of \<open>ud\<close>) is handled, the identity-to-handle binding of that identity is
  removed whichever handle it points at, the handle-to-identity entry of \<open>h\<close> is removed,
  and nothing is emitted. In particular, from any state, after identify(\<open>a\<close>) on \<open>h1\<close> and
  identify(\<open>a\<close>) on another handle \<open>h2\<close>, the identity \<open>a\<close> is bound to \<open>h2\<close>; handling the
  disconnect of \<open>h1\<close> removes that binding, so the query whether \<open>a\<close> is online returns false,
  while \<open>h2\<close> is still identified as \<open>a\<close> in the handle-to-identity table.
\<close>

theorem disconnect_removes_binding:
  "(Map_get (userSockets r) h = Some ud \<longrightarrow>
      \<not> snd (isUserOnline (fst (handleDisconnection r h)) (username ud)) \<and>
      identity_of (fst (handleDisconnection r h)) h = None \<and>
      snd (handleDisconnection r h) = []) \<and>
   (h1 \<noteq> h2 \<and> a \<noteq> [] \<longrightarrow>
      Map_get (connectedUsers (fst (run r [identify h1 a t1, identify h2 a t2]))) a = Some h2 \<and>
      \<not> snd (isUserOnline (fst (run r [identify h1 a t1, identify h2 a t2, Disconnect h1])) a) \<and>
      identity_of (fst (run r [identify h1 a t1, identify h2 a t2, Disconnect h1])) h2 = Some a)"
proof -
  have 1: "\<not> snd (isUserOnline (fst (handleDisconnection r h)) (username ud)) \<and>
      identity_of (fst (handleDisconnection r h)) h = None \<and>
      snd (handleDisconnection r h) = []"
    if "Map_get (userSockets r) h = Some ud"
    using that
    by (simp add: handleDisconnection_def isUserOnline_def Map_has_def Map_get_delete identity_of_def)
  let ?r2 = "fst (run r [identify h1 a t1, identify h2 a t2])"
  have r3: "fst (run r [identify h1 a t1, identify h2 a t2, Disconnect h1]) =
            fst (handleDisconnection ?r2 h1)"
    using run_snoc_state [of r "[identify h1 a t1, identify h2 a t2]" "Disconnect h1"]
    by (simp del: run.simps)
  have 2: "Map_get (connectedUsers ?r2) a = Some h2 \<and>
      \<not> snd (isUserOnline (fst (handleDisconnection ?r2 h1)) a) \<and>
      identity_of (fst (handleDisconnection ?r2 h1)) h2 = Some a"
    if "h1 \<noteq> h2" "a \<noteq> []"
    using that
    by (simp add: run_identify2 handleDisconnection_def isUserOnline_def Map_has_def
          Map_get_set Map_get_delete identity_of_def del: run.simps)
  from 1 2 show ?thesis unfolding r3 by blast
qed

text \<open>
  The theorem at the scenario of the specification: alice on \<open>H1\<close>, then on \<open>H2\<close>, then \<open>H1\<close> closes.
\<close>

theorem disconnect_removes_binding_witness:
  "Map_get (userSockets (fst (run constructor [identify ''H1'' ''alice'' 1]))) ''H1''
     = Some \<lparr>username = ''alice'', connectedAt = 1\<rparr> \<and>
   \<not> snd (isUserOnline (fst (handleDisconnection
        (fst (run constructor [identify ''H1'' ''alice'' 1])) ''H1'')) ''alice'') \<and>
   ''H1'' \<noteq> ''H2'' \<and> ''alice'' \<noteq> [] \<and>
   Map_get (connectedUsers (fst (run constructor
      [identify ''H1'' ''alice'' 1, identify ''H2'' ''alice'' 2]))) ''alice'' = Some ''H2'' \<and>
   \<not> snd (isUserOnline (fst (run constructor
      [identify ''H1'' ''alice'' 1, identify ''H2'' ''alice'' 2, Disconnect ''H1''])) ''alice'') \<and>
   identity_of (fst (run constructor
      [identify ''H1'' ''alice'' 1, identify ''H2'' ''alice'' 2, Disconnect ''H1''])) ''H2''
     = Some ''alice''"
  using disconnect_removes_binding
     [where r = "fst (run constructor [identify ''H1'' ''alice'' 1])" and h = "''H1''"
      and ud = "\<lparr>username = ''alice'', connectedAt = 1\<rparr>"]
    disconnect_removes_binding
     [where r = constructor and ?h1.0 = "''H1''" and ?h2.0 = "''H2''" and a = "''alice''"
      and ?t1.0 = 1 and ?t2.0 = 2]
  by (simp add: eval_defs)

subsection \<open>C2: one handle per identity\<close>

text \<open>
  C2 as the specification states it asks for at most one handle per identity in both
  directions of the table. \<^verbatim>\<open>handleAuthentication\<close> overwrites \<^verbatim>\<open>connectedUsers\<close> under the
  identity but leaves the entry of the earlier socket in \<^verbatim>\<open>userSockets\<close>: after \<open>alice\<close>
  identifies on \<open>H1\<close> and then on \<open>H2\<close>, both handles carry her identity there.
\<close>

theorem two_handles_claim_one_identity:
  "handles_claiming (fst (run constructor
      [identify ''H1'' ''alice'' 1, identify ''H2'' ''alice'' 2])) ''alice'' = [''H1'', ''H2''] \<and>
   \<not> length (handles_claiming (fst (run constructor
      [identify ''H1'' ''alice'' 1, identify ''H2'' ''alice'' 2])) ''alice'') \<le> 1"
  by code_simp

text \<open>
  C2, as the code has it. After every sequence of identify calls applied to the empty
  router, at most one handle is bound to any identity \<open>a\<close> in the identity-to-handle
  direction (\<^verbatim>\<open>connectedUsers\<close>). A later identify with a non-empty identity \<open>u\<close> on socket
  \<open>s\<close> leaves \<open>s\<close> as the only handle bound to \<open>u\<close>, whatever \<open>u\<close> was bound to before, and
  emits exactly one event, the \<^verbatim>\<open>authenticated\<close> acknowledgement on \<open>s\<close>: no error and
  nothing on the connection that lost the binding. In the handle-to-identity direction
  (\<^verbatim>\<open>userSockets\<close>) every handle \<open>h\<close> carries at most one identity; that at most one handle
  carries a given identity is not claimed there, since an earlier handle keeps its entry.
\<close>

theorem one_handle_per_identity_in_connectedUsers:
  "let r = fst (run constructor (map authenticate_call calls))
   in length (handles_bound_to r a) \<le> 1 \<and>
      length (identities_carried_by r h) \<le> 1 \<and>
      (u \<noteq> [] \<longrightarrow>
         handles_bound_to (fst (on_event r (identify s u t))) u = [s] \<and>
         snd (on_event r (identify s u t)) = [(s, Authenticated True u)])"
proof -
  let ?r = "fst (run constructor (map authenticate_call calls))"
  have d: "distinct (map fst (connectedUsers ?r))" by (rule reachable_distinct)
  have 1: "length (handles_bound_to ?r a) \<le> 1"
    using filter_key_distinct [OF d, of a] by (simp add: handles_bound_to_def)
  have 2: "handles_bound_to (fst (on_event ?r (identify s u t))) u = [s]" if "u \<noteq> []"
    using that d
    by (simp add: identify_state handles_bound_to_def filter_key_Map_get distinct_Map_set Map_get_set)
  have "distinct (map fst (userSockets ?r))" by (rule reachable_distinct_sockets)
  from filter_key_distinct [OF this, of h]
  have 3: "length (identities_carried_by ?r h) \<le> 1"
    by (simp add: identities_carried_by_def)
  from 1 2 3 show ?thesis by (simp add: Let_def identify_out)
qed

text \<open>
  The theorem after alice has identified on \<open>H1\<close> and \<open>H2\<close>, with a third identify on \<open>H3\<close>.
\<close>

theorem one_handle_per_identity_in_connectedUsers_witness:
  "length (handles_bound_to (fst (run constructor (map authenticate_call
       [(''H1'', Some \<lparr>ad_username = Some ''alice''\<rparr>, 1),
        (''H2'', Some \<lparr>ad_username = Some ''alice''\<rparr>, 2)]))) ''alice'') \<le> 1 \<and>
   identities_carried_by (fst (run constructor (map authenticate_call
       [(''H1'', Some \<lparr>ad_username = Some ''alice''\<rparr>, 1),
        (''H2'', Some \<lparr>ad_username = Some ''alice''\<rparr>, 2)]))) ''H1'' = [''alice''] \<and>
   ''alice'' \<noteq> [] \<and>
   handles_bound_to (fst (on_event (fst (run constructor (map authenticate_call
       [(''H1'', Some \<lparr>ad_username = Some ''alice''\<rparr>, 1),
        (''H2'', Some \<lparr>ad_username = Some ''alice''\<rparr>, 2)])))
       (identify ''H3'' ''alice'' 3))) ''alice'' = [''H3''] \<and>
   snd (on_event (fst (run constructor (map authenticate_call
       [(''H1'', Some \<lparr>ad_username = Some ''alice''\<rparr>, 1),
        (''H2'', Some \<lparr>ad_username = Some ''alice''\<rparr>, 2)])))
       (identify ''H3'' ''alice'' 3)) = [(''H3'', Authenticated True ''alice'')]"
  using one_handle_per_identity_in_connectedUsers
     [where calls = "[(''H1'', Some \<lparr>ad_username = Some ''alice''\<rparr>, 1),
                      (''H2'', Some \<lparr>ad_username = Some ''alice''\<rparr>, 2)]"
      and a = "''alice''" and h = "''H1''" and u = "''alice''" and s = "''H3''" and t = 3]
  by (simp add: eval_defs)

subsection \<open>C3: the round trip of a message\<close>

text \<open>
  C3. From any state, let \<open>a\<close> identify on \<open>h1\<close> and \<open>b\<close> on another connection \<open>h2\<close> (both
  identities non-empty, \<open>h2\<close> a socket id, which is never empty), and let \<open>h1\<close> send a
  message to \<open>b\<close> with non-empty payload \<open>p\<close>. The tables do not change. The connection
  \<open>h2\<close> receives exactly one event, a \<^verbatim>\<open>message\<close> with content \<open>p\<close> and sender \<open>a\<close>; the
  connection \<open>h1\<close> receives exactly one event, a \<^verbatim>\<open>messageDelivered\<close> with status
  \<^verbatim>\<open>delivered\<close>; no other connection receives anything. The \<^verbatim>\<open>id\<close> of the message and
  the \<^verbatim>\<open>messageId\<close> of the receipt are the same string: the id the caller supplied when
  that is truthy, and otherwise the one generated token \<^verbatim>\<open>msg_...\<close>.
\<close>

theorem round_trip_delivery:
  assumes "h1 \<noteq> h2" and "h2 \<noteq> []" and "a \<noteq> []" and "b \<noteq> []" and "p \<noteq> []"
    and "md_to md = Some b" and "md_encryptedContent md = Some p"
  shows "let r2 = fst (run r [identify h1 a t1, identify h2 b t2]);
             out = snd (handleMessageSend env r2 h1 (Some md))
         in fst (handleMessageSend env r2 h1 (Some md)) = r2 \<and>
            events_on h2 out =
              [Message \<lparr>msg_id = resolve_id env (md_id md), msg_from = a, msg_to = b,
                        msg_content = p,
                        msg_timestamp = resolve_timestamp env (md_timestamp md),
                        msg_deliveredAt = se_now_deliveredAt env\<rparr>] \<and>
            events_on h1 out =
              [MessageDelivered \<lparr>rc_messageId = resolve_id env (md_id md),
                                 rc_status = ''delivered'', rc_error = None,
                                 rc_timestamp = se_now_receipt env\<rparr>] \<and>
            (h \<noteq> h1 \<and> h \<noteq> h2 \<longrightarrow> events_on h out = []) \<and>
            (truthy (md_id md) \<longrightarrow> md_id md = Some (resolve_id env (md_id md))) \<and>
            (\<not> truthy (md_id md) \<longrightarrow> resolve_id env (md_id md) = ''msg_'' @ se_token env)"
proof -
  let ?r2 = "fst (run r [identify h1 a t1, identify h2 b t2])"
  have sender: "Map_get (userSockets ?r2) h1 = Some \<lparr>username = a, connectedAt = t1\<rparr>"
    using assms by (simp add: run_identify2 Map_get_set del: run.simps)
  have recipient: "Map_get (connectedUsers ?r2) b = Some h2"
    using assms by (simp add: run_identify2 Map_get_set del: run.simps)
  have send: "handleMessageSend env ?r2 h1 (Some md) =
     (?r2, [(h2, Message \<lparr>msg_id = resolve_id env (md_id md), msg_from = a, msg_to = b,
                        msg_content = p,
                        msg_timestamp = resolve_timestamp env (md_timestamp md),
                        msg_deliveredAt = se_now_deliveredAt env\<rparr>),
            (h1, MessageDelivered \<lparr>rc_messageId = resolve_id env (md_id md),
                                 rc_status = ''delivered'', rc_error = None,
                                 rc_timestamp = se_now_receipt env\<rparr>)])"
    using assms sender recipient by (simp add: handleMessageSend_def Let_def)
  have ids: "(truthy (md_id md) \<longrightarrow> md_id md = Some (resolve_id env (md_id md))) \<and>
            (\<not> truthy (md_id md) \<longrightarrow> resolve_id env (md_id md) = ''msg_'' @ se_token env)"
    by (simp add: truthy_def resolve_id_def split: option.splits)
  show ?thesis
    unfolding Let_def send using assms(1) ids by (simp add: events_on_def)
qed

text \<open>
  The theorem at the scenario of the specification: alice sends \<open>ct1\<close> with id \<open>m1\<close> to bob.
\<close>

theorem round_trip_delivery_witness:
  "''H1'' \<noteq> ''H2'' \<and> ''H2'' \<noteq> [] \<and> ''alice'' \<noteq> [] \<and> ''bob'' \<noteq> [] \<and> ''ct1'' \<noteq> [] \<and>
   events_on ''H2'' (snd (handleMessageSend
       \<lparr>se_token = ''1700000000000_k3j9x2abc'', se_now_timestamp = 5,
        se_now_deliveredAt = 6, se_now_receipt = 7\<rparr>
       (fst (run constructor [identify ''H1'' ''alice'' 1, identify ''H2'' ''bob'' 2])) ''H1''
       (Some \<lparr>md_to = Some ''bob'', md_encryptedContent = Some ''ct1'',
              md_timestamp = None, md_id = Some ''m1''\<rparr>))) =
     [Message \<lparr>msg_id = ''m1'', msg_from = ''alice'', msg_to = ''bob'', msg_content = ''ct1'',
               msg_timestamp = 5, msg_deliveredAt = 6\<rparr>] \<and>
   events_on ''H1'' (snd (handleMessageSend
       \<lparr>se_token = ''1700000000000_k3j9x2abc'', se_now_timestamp = 5,
        se_now_deliveredAt = 6, se_now_receipt = 7\<rparr>
       (fst (run constructor [identify ''H1'' ''alice'' 1, identify ''H2'' ''bob'' 2])) ''H1''
       (Some \<lparr>md_to = Some ''bob'', md_encryptedContent = Some ''ct1'',
              md_timestamp = None, md_id = Some ''m1''\<rparr>))) =
     [MessageDelivered \<lparr>rc_messageId = ''m1'', rc_status = ''delivered'', rc_error = None,
                        rc_timestamp = 7\<rparr>] \<and>
   events_on ''H3'' (snd (handleMessageSend
       \<lparr>se_token = ''1700000000000_k3j9x2abc'', se_now_timestamp = 5,
        se_now_deliveredAt = 6, se_now_receipt = 7\<rparr>
       (fst (run constructor [identify ''H1'' ''alice'' 1, identify ''H2'' ''bob'' 2])) ''H1''
       (Some \<lparr>md_to = Some ''bob'', md_encryptedContent = Some ''ct1'',
              md_timestamp = None, md_id = Some ''m1''\<rparr>))) = []"
  using round_trip_delivery [where ?h1.0 = "''H1''" and ?h2.0 = "''H2''" and a = "''alice''"
      and b = "''bob''" and p = "''ct1''" and r = constructor and ?t1.0 = 1 and ?t2.0 = 2
      and h = "''H3''"
      and md = "\<lparr>md_to = Some ''bob'', md_encryptedContent = Some ''ct1'',
                 md_timestamp = None, md_id = Some ''m1''\<rparr>"
      and env = "\<lparr>se_token = ''1700000000000_k3j9x2abc'', se_now_timestamp = 5,
                  se_now_deliveredAt = 6, se_now_receipt = 7\<rparr>"]
  by (simp add: eval_defs)

subsection \<open>C4: a recipient that is offline\<close>

text \<open>
  C4. When a sender that is identified sends a message (recipient and payload both
  non-empty, as the handler requires of a message) whose recipient is absent from
  \<^verbatim>\<open>connectedUsers\<close>, the router leaves both tables as they are and emits exactly one
  event: a \<^verbatim>\<open>messageDelivered\<close> receipt on the sender's connection with status \<^verbatim>\<open>failed\<close>
  and the error text of the offline case, which the source spells
  \<^verbatim>\<open>Recipient is offline\<close>. Every other connection \<open>h\<close> receives no event.
\<close>

theorem offline_recipient_failed_receipt:
  assumes "Map_get (userSockets r) sid = Some senderData"
    and "md_to md = Some recipient" and "recipient \<noteq> []"
    and "md_encryptedContent md = Some p" and "p \<noteq> []"
    and "Map_get (connectedUsers r) recipient = None"
  shows "handleMessageSend env r sid (Some md) =
           (r, [(sid, MessageDelivered
                   \<lparr>rc_messageId = resolve_id env (md_id md), rc_status = ''failed'',
                    rc_error = Some ''Recipient is offline'',
                    rc_timestamp = se_now_receipt env\<rparr>)]) \<and>
         (h \<noteq> sid \<longrightarrow> events_on h (snd (handleMessageSend env r sid (Some md))) = [])"
  using assms by (simp add: handleMessageSend_def events_on_def Let_def)

text \<open>
  The theorem at the scenario of the specification: alice alone, sending to \<open>ghost\<close> without an id.
\<close>

theorem offline_recipient_failed_receipt_witness:
  "Map_get (userSockets (fst (run constructor [identify ''H1'' ''alice'' 1]))) ''H1''
     = Some \<lparr>username = ''alice'', connectedAt = 1\<rparr> \<and>
   Map_get (connectedUsers (fst (run constructor [identify ''H1'' ''alice'' 1]))) ''ghost'' = None \<and>
   ''ghost'' \<noteq> [] \<and> ''ct1'' \<noteq> [] \<and>
   handleMessageSend
       \<lparr>se_token = ''1700000000000_k3j9x2abc'', se_now_timestamp = 5,
        se_now_deliveredAt = 6, se_now_receipt = 7\<rparr>
       (fst (run constructor [identify ''H1'' ''alice'' 1])) ''H1''
       (Some \<lparr>md_to = Some ''ghost'', md_encryptedContent = Some ''ct1'',
              md_timestamp = None, md_id = None\<rparr>) =
     (fst (run constructor [identify ''H1'' ''alice'' 1]),
      [(''H1'', MessageDelivered
          \<lparr>rc_messageId = ''msg_1700000000000_k3j9x2abc'', rc_status = ''failed'',
           rc_error = Some ''Recipient is offline'', rc_timestamp = 7\<rparr>)]) \<and>
   events_on ''H2'' (snd (handleMessageSend
       \<lparr>se_token = ''1700000000000_k3j9x2abc'', se_now_timestamp = 5,
        se_now_deliveredAt = 6, se_now_receipt = 7\<rparr>
       (fst (run constructor [identify ''H1'' ''alice'' 1])) ''H1''
       (Some \<lparr>md_to = Some ''ghost'', md_encryptedContent = Some ''ct1'',
              md_timestamp = None, md_id = None\<rparr>))) = []"
  using offline_recipient_failed_receipt
     [where r = "fst (run constructor [identify ''H1'' ''alice'' 1])" and sid = "''H1''"
      and senderData = "\<lparr>username = ''alice'', connectedAt = 1\<rparr>"
      and recipient = "''ghost''" and p = "''ct1''" and h = "''H2''"
      and md = "\<lparr>md_to = Some ''ghost'', md_encryptedContent = Some ''ct1'',
                 md_timestamp = None, md_id = None\<rparr>"
      and env = "\<lparr>se_token = ''1700000000000_k3j9x2abc'', se_now_timestamp = 5,
                  se_now_deliveredAt = 6, se_now_receipt = 7\<rparr>"]
  by (simp add: eval_defs)

subsection \<open>C5: a send from a connection that is not identified\<close>

text \<open>
  C5. A \<^verbatim>\<open>sendMessage\<close> from a connection that is not identified, whatever its payload,
  leaves both tables as they are and emits exactly one event: an \<^verbatim>\<open>error\<close> on that same
  connection saying that the sender is not identified, which the source spells
  \<^verbatim>\<open>Not authenticated\<close>. Every other connection \<open>h\<close> receives no event.
\<close>

theorem unidentified_send_rejected:
  "Map_get (userSockets r) sid = None \<Longrightarrow>
   handleMessageSend env r sid messageData = (r, [(sid, Error ''Not authenticated'')]) \<and>
   (h \<noteq> sid \<longrightarrow> events_on h (snd (handleMessageSend env r sid messageData)) = [])"
  by (simp add: handleMessageSend_def events_on_def)

text \<open>
  The theorem for a socket \<open>H1\<close> that never identified, sending to bob who is online.
\<close>

theorem unidentified_send_rejected_witness:
  "Map_get (userSockets (fst (run constructor [identify ''H2'' ''bob'' 1]))) ''H1'' = None \<and>
   handleMessageSend
       \<lparr>se_token = ''1700000000000_k3j9x2abc'', se_now_timestamp = 5,
        se_now_deliveredAt = 6, se_now_receipt = 7\<rparr>
       (fst (run constructor [identify ''H2'' ''bob'' 1])) ''H1''
       (Some \<lparr>md_to = Some ''bob'', md_encryptedContent = Some ''ct1'',
              md_timestamp = None, md_id = Some ''m1''\<rparr>) =
     (fst (run constructor [identify ''H2'' ''bob'' 1]), [(''H1'', Error ''Not authenticated'')]) \<and>
   events_on ''H2'' (snd (handleMessageSend
       \<lparr>se_token = ''1700000000000_k3j9x2abc'', se_now_timestamp = 5,
        se_now_deliveredAt = 6, se_now_receipt = 7\<rparr>
       (fst (run constructor [identify ''H2'' ''bob'' 1])) ''H1''
       (Some \<lparr>md_to = Some ''bob'', md_encryptedContent = Some ''ct1'',
              md_timestamp = None, md_id = Some ''m1''\<rparr>))) = []"
  using unidentified_send_rejected
     [where r = "fst (run constructor [identify ''H2'' ''bob'' 1])" and sid = "''H1''"
      and h = "''H2''"
      and messageData = "Some \<lparr>md_to = Some ''bob'', md_encryptedContent = Some ''ct1'',
                 md_timestamp = None, md_id = Some ''m1''\<rparr>"
      and env = "\<lparr>se_token = ''1700000000000_k3j9x2abc'', se_now_timestamp = 5,
                  se_now_deliveredAt = 6, se_now_receipt = 7\<rparr>"]
  by (simp add: eval_defs)

subsection \<open>C6: the identify request\<close>

text \<open>
  C6 as the specification states it gives every identify request whose identity is
  missing the answer that the identity is required. An \<^verbatim>\<open>authenticate\<close> event that
  arrives with no payload at all has no identity either, but \<^verbatim>\<open>handleAuthentication\<close>
  throws on destructuring it and its \<^verbatim>\<open>catch\<close> answers \<^verbatim>\<open>Authentication failed\<close>.
\<close>

theorem payloadless_identify_fails_otherwise:
  "handleAuthentication 1 constructor ''H1'' None =
     (constructor, [(''H1'', AuthError ''Authentication failed'')]) \<and>
   handleAuthentication 1 constructor ''H1'' None \<noteq>
     (constructor, [(''H1'', AuthError ''Username is required'')])"
  by (simp add: handleAuthentication_def)

text \<open>
  C6, as the code has it. An identify request with no payload object leaves both tables
  as they are and emits an \<^verbatim>\<open>authError\<close> on the same connection with the text
  \<^verbatim>\<open>Authentication failed\<close>. An identify request with a payload whose identity is empty
  or missing leaves both tables as they are and emits an \<^verbatim>\<open>authError\<close> on the same
  connection saying that the identity is required, which the source spells
  \<^verbatim>\<open>Username is required\<close>. An identify request with a non-empty identity \<open>a\<close> binds the
  connection handle to \<open>a\<close> and \<open>a\<close> to the connection handle, and emits the
  \<^verbatim>\<open>authenticated\<close> acknowledgement carrying \<open>a\<close> on the same connection. In each case
  that one event is all the request emits.
\<close>

theorem identify_contract:
  "handleAuthentication now r sid None = (r, [(sid, AuthError ''Authentication failed'')]) \<and>
   (\<not> truthy u \<longrightarrow>
      handleAuthentication now r sid (Some \<lparr>ad_username = u\<rparr>) =
        (r, [(sid, AuthError ''Username is required'')])) \<and>
   (truthy (Some a) \<longrightarrow>
      Map_get (userSockets (fst (handleAuthentication now r sid (Some \<lparr>ad_username = Some a\<rparr>)))) sid
        = Some \<lparr>username = a, connectedAt = now\<rparr> \<and>
      Map_get (connectedUsers (fst (handleAuthentication now r sid (Some \<lparr>ad_username = Some a\<rparr>)))) a
        = Some sid \<and>
      snd (handleAuthentication now r sid (Some \<lparr>ad_username = Some a\<rparr>)) =
        [(sid, Authenticated True a)])"
proof -
  have no_payload: "handleAuthentication now r sid None =
      (r, [(sid, AuthError ''Authentication failed'')])"
    by (simp add: handleAuthentication_def)
  have falsy: "handleAuthentication now r sid (Some \<lparr>ad_username = u\<rparr>) =
      (r, [(sid, AuthError ''Username is required'')])" if "\<not> truthy u"
    using that by (cases u) (simp_all add: handleAuthentication_def truthy_def)
  have bound: "Map_get (userSockets (fst (handleAuthentication now r sid (Some \<lparr>ad_username = Some a\<rparr>)))) sid
        = Some \<lparr>username = a, connectedAt = now\<rparr> \<and>
      Map_get (connectedUsers (fst (handleAuthentication now r sid (Some \<lparr>ad_username = Some a\<rparr>)))) a
        = Some sid \<and>
      snd (handleAuthentication now r sid (Some \<lparr>ad_username = Some a\<rparr>)) =
        [(sid, Authenticated True a)]" if "truthy (Some a)"
    using that by (simp add: handleAuthentication_def truthy_def Map_get_set)
  from no_payload falsy bound show ?thesis by blast
qed

text \<open>
  The theorem on the empty router: no payload, an empty identity, and alice.
\<close>

theorem identify_contract_witness:
  "handleAuthentication 1 constructor ''H1'' None =
     (constructor, [(''H1'', AuthError ''Authentication failed'')]) \<and>
   \<not> truthy (Some '''') \<and>
   handleAuthentication 1 constructor ''H1'' (Some \<lparr>ad_username = Some ''''\<rparr>) =
     (constructor, [(''H1'', AuthError ''Username is required'')]) \<and>
   truthy (Some ''alice'') \<and>
   Map_get (userSockets (fst (handleAuthentication 1 constructor ''H1''
       (Some \<lparr>ad_username = Some ''alice''\<rparr>)))) ''H1''
     = Some \<lparr>username = ''alice'', connectedAt = 1\<rparr> \<and>
   Map_get (connectedUsers (fst (handleAuthentication 1 constructor ''H1''
       (Some \<lparr>ad_username = Some ''alice''\<rparr>)))) ''alice'' = Some ''H1'' \<and>
   snd (handleAuthentication 1 constructor ''H1'' (Some \<lparr>ad_username = Some ''alice''\<rparr>)) =
     [(''H1'', Authenticated True ''alice'')]"
  using identify_contract [where u = "Some ''''" and a = "''alice''" and now = 1
      and r = constructor and sid = "''H1''"]
  by (simp add: eval_defs)

subsection \<open>C7: the identity of a connection\<close>

text \<open>
  C7 as the specification states it says the identity of a connection is set once and
  never changes. \<^verbatim>\<open>handleAuthentication\<close> does not look at what the socket was identified
  as before: a connection identified as \<open>alice\<close> that identifies again as \<open>bob\<close> is \<open>bob\<close>
  from then on.
\<close>

theorem reidentify_changes_identity:
  "identity_of (fst (run constructor [identify ''H1'' ''alice'' 1])) ''H1'' = Some ''alice'' \<and>
   identity_of (fst (run constructor [identify ''H1'' ''alice'' 1, identify ''H1'' ''bob'' 2])) ''H1''
     = Some ''bob''"
  by code_simp

text \<open>
  C7, as the code has it. The identity associated with a connection handle \<open>h\<close> is
  changed by no event on another connection, and by no event on \<open>h\<close> itself other than
  an identify with a non-empty identity and the close of the connection: an identify
  with an empty or missing identity, a \<^verbatim>\<open>sendMessage\<close>, a \<^verbatim>\<open>messageReceived\<close> and a
  \<^verbatim>\<open>typing\<close> leave it as it is. Every identify on \<open>h\<close> with a non-empty identity \<open>u\<close>
  sets the identity of \<open>h\<close> to \<open>u\<close>, whatever it was, and the close of \<open>h\<close> removes it.
\<close>

theorem identity_changes_only_by_identify_or_close:
  "(socket_of q \<noteq> h \<longrightarrow> identity_of (fst (on_event r q)) h = identity_of r h) \<and>
   (\<not> binds_identity q \<and> \<not> closes q \<longrightarrow> identity_of (fst (on_event r q)) h = identity_of r h) \<and>
   (u \<noteq> [] \<longrightarrow> identity_of (fst (on_event r (identify h u t))) h = Some u) \<and>
   identity_of (fst (on_event r (Disconnect h))) h = None"
proof -
  have 1: "socket_of q \<noteq> h \<Longrightarrow> identity_of (fst (on_event r q)) h = identity_of r h"
    by (cases q)
       (auto simp: handler_defs identity_of_def Map_get_set Map_get_delete Let_def
             split: option.splits prod.splits)
  have 2: "\<not> binds_identity q \<Longrightarrow> \<not> closes q \<Longrightarrow>
           identity_of (fst (on_event r q)) h = identity_of r h"
  proof (cases q)
    case (Authenticate s ad t)
    assume "\<not> binds_identity q"
    with Authenticate show ?thesis
      by (cases ad) (auto simp: handleAuthentication_def truthy_def split: option.splits)
  qed (auto simp: handler_defs Let_def split: option.splits prod.splits)
  have 3: "u \<noteq> [] \<Longrightarrow> identity_of (fst (on_event r (identify h u t))) h = Some u"
    by (simp add: identify_state identity_of_def Map_get_set)
  have 4: "identity_of (fst (on_event r (Disconnect h))) h = None"
    by (simp add: handleDisconnection_def identity_of_def Map_get_delete split: option.splits)
  from 1 2 3 4 show ?thesis by blast
qed

text \<open>
  The theorem for alice on \<open>H1\<close>: bob identifying on \<open>H2\<close>, a typing event on \<open>H1\<close>, a second identify on \<open>H1\<close>, and the close of \<open>H1\<close>.
\<close>

theorem identity_changes_only_by_identify_or_close_witness:
  "socket_of (identify ''H2'' ''bob'' 2) \<noteq> ''H1'' \<and>
   identity_of (fst (on_event (fst (run constructor [identify ''H1'' ''alice'' 1]))
       (identify ''H2'' ''bob'' 2))) ''H1'' = Some ''alice'' \<and>
   \<not> binds_identity (Typing ''H1'' None) \<and> \<not> closes (Typing ''H1'' None) \<and>
   identity_of (fst (on_event (fst (run constructor [identify ''H1'' ''alice'' 1]))
       (Typing ''H1'' None))) ''H1'' = Some ''alice'' \<and>
   ''bob'' \<noteq> [] \<and>
   identity_of (fst (on_event (fst (run constructor [identify ''H1'' ''alice'' 1]))
       (identify ''H1'' ''bob'' 2))) ''H1'' = Some ''bob'' \<and>
   identity_of (fst (on_event (fst (run constructor [identify ''H1'' ''alice'' 1]))
       (Disconnect ''H1''))) ''H1'' = None"
  using identity_changes_only_by_identify_or_close
     [where r = "fst (run constructor [identify ''H1'' ''alice'' 1])" and h = "''H1''"
      and q = "identify ''H2'' ''bob'' 2" and u = "''bob''" and t = 2]
    identity_changes_only_by_identify_or_close
     [where r = "fst (run constructor [identify ''H1'' ''alice'' 1])" and h = "''H1''"
      and q = "Typing ''H1'' None" and u = "''bob''" and t = 2]
  by (simp add: eval_defs)

subsection \<open>C8: typing signals\<close>

text \<open>
  C8. A typing event from a connection that is not identified, or with a recipient that
  is not in \<^verbatim>\<open>connectedUsers\<close>, emits no event on any connection, so no error either, and
  leaves both tables as they are. When the sender is identified and the recipient is
  connected (bound to a socket id \<open>h\<close>), exactly one event is emitted: a \<^verbatim>\<open>userTyping\<close>
  on \<open>h\<close> carrying the sender's identity and the \<^verbatim>\<open>isTyping\<close> flag of the request.
\<close>

theorem typing_relay:
  "(Map_get (userSockets r) sid = None \<longrightarrow> handleTyping r sid typingData = (r, [])) \<and>
   (td_to td = Some recipient \<and> Map_get (connectedUsers r) recipient = None \<longrightarrow>
      handleTyping r sid (Some td) = (r, [])) \<and>
   (Map_get (userSockets r) sid = Some senderData \<and> td_to td = Some recipient \<and>
    Map_get (connectedUsers r) recipient = Some h \<and> h \<noteq> [] \<longrightarrow>
      handleTyping r sid (Some td) =
        (r, [(h, UserTyping \<lparr>ty_from = username senderData, ty_isTyping = td_isTyping td\<rparr>)]))"
  by (auto simp: handleTyping_def split: option.splits)

text \<open>
  The theorem for a sender that is not identified, for a recipient that is offline, and for alice typing to bob.
\<close>

theorem typing_relay_witness:
  "Map_get (userSockets constructor) ''H1'' = None \<and>
   handleTyping constructor ''H1'' (Some \<lparr>td_to = Some ''bob'', td_isTyping = Some True\<rparr>)
     = (constructor, []) \<and>
   Map_get (connectedUsers (fst (run constructor [identify ''H1'' ''alice'' 1]))) ''bob'' = None \<and>
   handleTyping (fst (run constructor [identify ''H1'' ''alice'' 1])) ''H1''
       (Some \<lparr>td_to = Some ''bob'', td_isTyping = Some True\<rparr>)
     = (fst (run constructor [identify ''H1'' ''alice'' 1]), []) \<and>
   Map_get (userSockets (fst (run constructor [identify ''H1'' ''alice'' 1, identify ''H2'' ''bob'' 2])))
       ''H1'' = Some \<lparr>username = ''alice'', connectedAt = 1\<rparr> \<and>
   Map_get (connectedUsers (fst (run constructor [identify ''H1'' ''alice'' 1, identify ''H2'' ''bob'' 2])))
       ''bob'' = Some ''H2'' \<and> ''H2'' \<noteq> [] \<and>
   handleTyping (fst (run constructor [identify ''H1'' ''alice'' 1, identify ''H2'' ''bob'' 2])) ''H1''
       (Some \<lparr>td_to = Some ''bob'', td_isTyping = Some True\<rparr>)
     = (fst (run constructor [identify ''H1'' ''alice'' 1, identify ''H2'' ''bob'' 2]),
        [(''H2'', UserTyping \<lparr>ty_from = ''alice'', ty_isTyping = Some True\<rparr>)])"
  using typing_relay [where r = constructor and sid = "''H1''"
      and typingData = "Some \<lparr>td_to = Some ''bob'', td_isTyping = Some True\<rparr>"]
    typing_relay [where r = "fst (run constructor [identify ''H1'' ''alice'' 1])" and sid = "''H1''"
      and td = "\<lparr>td_to = Some ''bob'', td_isTyping = Some True\<rparr>" and recipient = "''bob''"]
    typing_relay [where r = "fst (run constructor [identify ''H1'' ''alice'' 1, identify ''H2'' ''bob'' 2])"
      and sid = "''H1''" and td = "\<lparr>td_to = Some ''bob'', td_isTyping = Some True\<rparr>"
      and recipient = "''bob''" and h = "''H2''"
      and senderData = "\<lparr>username = ''alice'', connectedAt = 1\<rparr>"]
  by (simp add: eval_defs)

subsection \<open>C9: the introspection queries\<close>

text \<open>
  C9. In every state the router reaches from its constructor by any sequence of
  requests, the list of connected usernames is the key list of \<^verbatim>\<open>connectedUsers\<close>, the
  connected-user count is the length of that list and the number of identities in it,
  an identity is reported online exactly when it occurs in the list, and each of the
  three queries returns the router as it was. After identify(alice) and identify(bob)
  the status route answers 200 with count 2 and the usernames alice and bob.
\<close>

theorem introspection_agrees:
  "let r = fst (run constructor qs)
   in snd (getConnectedUsernames r) = map fst (connectedUsers r) \<and>
      snd (getConnectedUsersCount r) = length (snd (getConnectedUsernames r)) \<and>
      snd (getConnectedUsersCount r) = card (set (snd (getConnectedUsernames r))) \<and>
      snd (isUserOnline r u) = (u \<in> set (snd (getConnectedUsernames r))) \<and>
      fst (getConnectedUsersCount r) = r \<and>
      fst (getConnectedUsernames r) = r \<and>
      fst (isUserOnline r u) = r \<and>
      get_websocket_status (Some (fst (run constructor [identify h1 ''alice'' t1, identify h2 ''bob'' t2]))) =
        (Some (fst (run constructor [identify h1 ''alice'' t1, identify h2 ''bob'' t2])), 200,
         StatusBody \<lparr>sb_success = True, sb_status = ''active'', sb_connectedUsers = 2,
                     sb_connectedUsernames = [''alice'', ''bob'']\<rparr>)"
proof -
  have "distinct (map fst (connectedUsers (fst (run constructor qs))))"
    by (rule reachable_distinct)
  from distinct_card [OF this]
  have "card (set (map fst (connectedUsers (fst (run constructor qs))))) =
             length (connectedUsers (fst (run constructor qs)))"
    by simp
  moreover have "get_websocket_status (Some (fst (run constructor [identify h1 ''alice'' t1, identify h2 ''bob'' t2]))) =
        (Some (fst (run constructor [identify h1 ''alice'' t1, identify h2 ''bob'' t2])), 200,
         StatusBody \<lparr>sb_success = True, sb_status = ''active'', sb_connectedUsers = 2,
                     sb_connectedUsernames = [''alice'', ''bob'']\<rparr>)"
    by (simp add: run_identify2 get_websocket_status_def getConnectedUsersCount_def
          getConnectedUsernames_def constructor_def Map_size_def Map_keys_def del: run.simps)
  ultimately show ?thesis
    by (simp add: Let_def getConnectedUsersCount_def getConnectedUsernames_def isUserOnline_def
          Map_size_def Map_has_iff Map_keys_def)
qed

text \<open>
  The theorem after alice and bob have identified.
\<close>

theorem introspection_agrees_witness:
  "snd (getConnectedUsersCount (fst (run constructor
      [identify ''H1'' ''alice'' 1, identify ''H2'' ''bob'' 2]))) = 2 \<and>
   snd (getConnectedUsernames (fst (run constructor
      [identify ''H1'' ''alice'' 1, identify ''H2'' ''bob'' 2]))) = [''alice'', ''bob''] \<and>
   snd (isUserOnline (fst (run constructor
      [identify ''H1'' ''alice'' 1, identify ''H2'' ''bob'' 2])) ''bob'') \<and>
   \<not> snd (isUserOnline (fst (run constructor
      [identify ''H1'' ''alice'' 1, identify ''H2'' ''bob'' 2])) ''carol'')"
  using introspection_agrees [where qs = "[identify ''H1'' ''alice'' 1, identify ''H2'' ''bob'' 2]"
      and u = "''bob''"]
  by (simp add: eval_defs)

subsection \<open>C10: a superseded handle can still send\<close>



end
